theory Spec2Isabelle
  imports Main "HOL-Library.FSet"
begin

section \<open>The function manager of angr: data model\<close>

text \<open>
  Shallow embedding of \<^verbatim>\<open>src/angr/functionmanager.py\<close>. Addresses and offsets are
  Python integers, hence \<open>int\<close>. A Python \<^verbatim>\<open>dict\<close> is a map, a Python \<^verbatim>\<open>set\<close> a finite
  set, a Python \<^verbatim>\<open>list\<close> a list. Every method mutates its object and returns nothing, so it
  is a function from the object before the call to the object after it.
\<close>

type_synonym addr = int

subsection \<open>The directed graph of networkx, as far as the program uses it\<close>

text \<open>
  \<^verbatim>\<open>networkx.DiGraph\<close> is a library class. The program calls \<^verbatim>\<open>add_node\<close>, \<^verbatim>\<open>add_edge\<close>,
  \<^verbatim>\<open>nodes()\<close> and \<^verbatim>\<open>edges()\<close> only. A graph is its collection of nodes and, for every ordered
  pair of nodes joined by an edge, the attributes of that edge. The only attribute the
  program ever gives is \<^verbatim>\<open>type\<close>, a string, so the attribute dictionary of an edge is the
  value of \<^verbatim>\<open>type\<close>, if it has one.
\<close>

type_synonym edge_attr = "string option"

record DiGraph =
  nodes :: "addr fset"
  edges :: "(addr \<times> addr) \<rightharpoonup> edge_attr"

definition DiGraph_init :: DiGraph where
  "DiGraph_init = \<lparr>nodes = {||}, edges = Map.empty\<rparr>"

definition add_node :: "DiGraph \<Rightarrow> addr \<Rightarrow> DiGraph" where
  "add_node g n = g\<lparr>nodes := finsert n (nodes g)\<rparr>"

text \<open>
  \<^verbatim>\<open>add_edge(u, v, **attr)\<close> adds both end points as nodes when they are missing, takes the
  attribute dictionary the edge already has (an empty one for a new edge) and updates it
  with \<^verbatim>\<open>attr\<close>.
\<close>

definition add_edge :: "DiGraph \<Rightarrow> addr \<Rightarrow> addr \<Rightarrow> edge_attr \<Rightarrow> DiGraph" where
  "add_edge g u v attr =
     g\<lparr>nodes := finsert v (finsert u (nodes g)),
       edges := (edges g)((u, v) \<mapsto>
         (case attr of
            Some ty \<Rightarrow> Some ty
          | None \<Rightarrow> (case edges g (u, v) of Some old \<Rightarrow> old | None \<Rightarrow> None)))\<rparr>"

definition has_edge :: "DiGraph \<Rightarrow> addr \<Rightarrow> addr \<Rightarrow> bool" where
  "has_edge g u v = (edges g (u, v) \<noteq> None)"

text \<open>
  \<^verbatim>\<open>number_of_edges(u, v)\<close> of a \<^verbatim>\<open>DiGraph\<close>: one when \<^verbatim>\<open>v\<close> is a successor of \<^verbatim>\<open>u\<close>, zero
  otherwise.
\<close>

definition number_of_edges :: "DiGraph \<Rightarrow> addr \<Rightarrow> addr \<Rightarrow> nat" where
  "number_of_edges g u v = (if edges g (u, v) \<noteq> None then 1 else 0)"

subsection \<open>class Function\<close>

record Function =
  transition_graph :: DiGraph
  ret_sites :: "addr fset"
  call_sites :: "addr \<rightharpoonup> (addr \<times> addr)"
  retn_addr_to_call_site :: "addr \<rightharpoonup> addr"
  addr :: addr
  name :: "string option"
  argument_registers :: "int list"
  argument_stack_variables :: "int list"
  bp_on_stack :: bool
  retaddr_on_stack :: bool
  sp_difference :: int

text \<open>\<^verbatim>\<open>Function.__init__(self, addr, name=None)\<close>\<close>

definition Function_init :: "addr \<Rightarrow> string option \<Rightarrow> Function" where
  "Function_init a n =
     \<lparr>transition_graph = DiGraph_init,
      ret_sites = {||},
      call_sites = Map.empty,
      retn_addr_to_call_site = Map.empty,
      addr = a,
      name = n,
      argument_registers = [],
      argument_stack_variables = [],
      bp_on_stack = False,
      retaddr_on_stack = False,
      sp_difference = 0\<rparr>"

definition startpoint :: "Function \<Rightarrow> addr" where
  "startpoint f = addr f"

definition transit_to :: "Function \<Rightarrow> addr \<Rightarrow> addr \<Rightarrow> Function" where
  "transit_to f from_addr to_addr =
     f\<lparr>transition_graph := add_edge (transition_graph f) from_addr to_addr (Some ''transition'')\<rparr>"

definition return_from_call :: "Function \<Rightarrow> addr \<Rightarrow> addr \<Rightarrow> Function" where
  "return_from_call f first_block_addr to_addr =
     f\<lparr>transition_graph :=
         add_edge (transition_graph f) first_block_addr to_addr (Some ''return_from_call'')\<rparr>"

definition add_block :: "Function \<Rightarrow> addr \<Rightarrow> Function" where
  "add_block f a = f\<lparr>transition_graph := add_node (transition_graph f) a\<rparr>"

definition add_return_site :: "Function \<Rightarrow> addr \<Rightarrow> Function" where
  "add_return_site f return_site_addr = f\<lparr>ret_sites := finsert return_site_addr (ret_sites f)\<rparr>"

definition add_call_site :: "Function \<Rightarrow> addr \<Rightarrow> addr \<Rightarrow> addr \<Rightarrow> Function" where
  "add_call_site f call_site_addr call_target_addr retn_addr =
     f\<lparr>call_sites := (call_sites f)(call_site_addr \<mapsto> (call_target_addr, retn_addr)),
       retn_addr_to_call_site := (retn_addr_to_call_site f)(retn_addr \<mapsto> call_site_addr)\<rparr>"

text \<open>\<^verbatim>\<open>get_call_sites\<close> returns the keys of the call-site dictionary.\<close>

definition get_call_sites :: "Function \<Rightarrow> addr set" where
  "get_call_sites f = dom (call_sites f)"

text \<open>The two lookups return \<^verbatim>\<open>None\<close> for an unknown call site.\<close>

definition get_call_target :: "Function \<Rightarrow> addr \<Rightarrow> addr option" where
  "get_call_target f callsite_addr =
     (case call_sites f callsite_addr of Some (target, retn) \<Rightarrow> Some target | None \<Rightarrow> None)"

definition get_call_return :: "Function \<Rightarrow> addr \<Rightarrow> addr option" where
  "get_call_return f callsite_addr =
     (case call_sites f callsite_addr of Some (target, retn) \<Rightarrow> Some retn | None \<Rightarrow> None)"

definition basic_blocks :: "Function \<Rightarrow> addr fset" where
  "basic_blocks f = nodes (transition_graph f)"

definition add_argument_register :: "Function \<Rightarrow> int \<Rightarrow> Function" where
  "add_argument_register f reg_offset =
     (if reg_offset \<notin> set (argument_registers f)
      then f\<lparr>argument_registers := argument_registers f @ [reg_offset]\<rparr>
      else f)"

definition add_argument_stack_variable :: "Function \<Rightarrow> int \<Rightarrow> Function" where
  "add_argument_stack_variable f stack_var_offset =
     (if stack_var_offset \<notin> set (argument_stack_variables f)
      then f\<lparr>argument_stack_variables := argument_stack_variables f @ [stack_var_offset]\<rparr>
      else f)"

definition arguments :: "Function \<Rightarrow> int list \<times> int list" where
  "arguments f = (argument_registers f, argument_stack_variables f)"

text \<open>\<^verbatim>\<open>has_return\<close> is \<^verbatim>\<open>len(self._ret_sites) > 0\<close>.\<close>

definition has_return :: "Function \<Rightarrow> bool" where
  "has_return f = (0 < fcard (ret_sites f))"

subsection \<open>class FunctionManager\<close>

text \<open>
  The manager keeps the project it was made for (never read in this module), the map
  from start addresses to functions, and the call graph between functions. Its methods
  \<^verbatim>\<open>call_to\<close>, \<^verbatim>\<open>return_from\<close>, \<^verbatim>\<open>transit_to\<close>, \<^verbatim>\<open>return_from_call\<close> and \<^verbatim>\<open>function\<close> carry the
  prefix \<open>fm_\<close> here, as two of them share their names with methods of \<^verbatim>\<open>Function\<close>.
\<close>

record 'p FunctionManager =
  project :: 'p
  function_map :: "addr \<rightharpoonup> Function"
  interfunction_graph :: DiGraph

text \<open>\<^verbatim>\<open>FunctionManager.__init__(self, project, binary)\<close>; \<^verbatim>\<open>binary\<close> is not used.\<close>

definition FunctionManager_init :: "'p \<Rightarrow> 'b \<Rightarrow> 'p FunctionManager" where
  "FunctionManager_init proj binary =
     \<lparr>project = proj, function_map = Map.empty, interfunction_graph = DiGraph_init\<rparr>"

definition create_function_if_not_exist :: "'p FunctionManager \<Rightarrow> addr \<Rightarrow> 'p FunctionManager" where
  "create_function_if_not_exist m function_addr =
     (if function_addr \<notin> dom (function_map m)
      then m\<lparr>function_map :=
               (function_map m)(function_addr \<mapsto> add_block (Function_init function_addr None) function_addr)\<rparr>
      else m)"

text \<open>
  \<^verbatim>\<open>self._function_map[function_addr].method(...)\<close>: after
  \<^verbatim>\<open>_create_function_if_not_exist\<close> the key is present. A missing key would raise
  \<^verbatim>\<open>KeyError\<close>; the model then leaves the manager as it is, and
  \<open>create_function_if_not_exist_present\<close> below shows that this branch is never taken.
\<close>

definition on_function ::
  "'p FunctionManager \<Rightarrow> addr \<Rightarrow> (Function \<Rightarrow> Function) \<Rightarrow> 'p FunctionManager" where
  "on_function m function_addr method =
     (case function_map m function_addr of
        Some f \<Rightarrow> m\<lparr>function_map := (function_map m)(function_addr \<mapsto> method f)\<rparr>
      | None \<Rightarrow> m)"

definition fm_call_to :: "'p FunctionManager \<Rightarrow> addr \<Rightarrow> addr \<Rightarrow> addr \<Rightarrow> addr \<Rightarrow> 'p FunctionManager" where
  "fm_call_to m function_addr from_addr to_addr retn_addr =
     (let m1 = create_function_if_not_exist m function_addr;
          m2 = on_function m1 function_addr (\<lambda>f. add_call_site f from_addr to_addr retn_addr)
      in m2\<lparr>interfunction_graph := add_edge (interfunction_graph m2) function_addr to_addr None\<rparr>)"

text \<open>\<^verbatim>\<open>return_from(self, function_addr, from_addr, to_addr=None)\<close>\<close>

definition fm_return_from ::
  "'p FunctionManager \<Rightarrow> addr \<Rightarrow> addr \<Rightarrow> addr option \<Rightarrow> 'p FunctionManager" where
  "fm_return_from m function_addr from_addr to_addr =
     (let m1 = create_function_if_not_exist m function_addr
      in on_function m1 function_addr (\<lambda>f. add_return_site f from_addr))"

definition fm_transit_to :: "'p FunctionManager \<Rightarrow> addr \<Rightarrow> addr \<Rightarrow> addr \<Rightarrow> 'p FunctionManager" where
  "fm_transit_to m function_addr from_addr to_addr =
     (let m1 = create_function_if_not_exist m function_addr
      in on_function m1 function_addr (\<lambda>f. transit_to f from_addr to_addr))"

definition fm_return_from_call ::
  "'p FunctionManager \<Rightarrow> addr \<Rightarrow> addr \<Rightarrow> addr \<Rightarrow> 'p FunctionManager" where
  "fm_return_from_call m function_addr first_block_addr to_addr =
     (let m1 = create_function_if_not_exist m function_addr
      in on_function m1 function_addr (\<lambda>f. return_from_call f first_block_addr to_addr))"

definition fm_functions :: "'p FunctionManager \<Rightarrow> (addr \<rightharpoonup> Function)" where
  "fm_functions m = function_map m"

text \<open>
  \<^verbatim>\<open>function(self, addr)\<close> returns the function stored at the address, or \<^verbatim>\<open>None\<close>. The
  model returns the result together with the manager after the call.
\<close>

definition fm_function :: "'p FunctionManager \<Rightarrow> addr \<Rightarrow> Function option \<times> 'p FunctionManager" where
  "fm_function m a =
     (if a \<in> dom (function_map m) then (function_map m a, m) else (None, m))"

section \<open>Sequences of operations\<close>

text \<open>The methods of \<^verbatim>\<open>Function\<close> that change it, and the attributes that can be set.\<close>

datatype function_op =
    Op_transit_to addr addr
  | Op_return_from_call addr addr
  | Op_add_block addr
  | Op_add_return_site addr
  | Op_add_call_site addr addr addr
  | Op_add_argument_register int
  | Op_add_argument_stack_variable int
  | Op_set_name "string option"
  | Op_set_bp_on_stack bool
  | Op_set_retaddr_on_stack bool
  | Op_set_sp_difference int

fun apply_op :: "Function \<Rightarrow> function_op \<Rightarrow> Function" where
  "apply_op f (Op_transit_to a b) = transit_to f a b"
| "apply_op f (Op_return_from_call a b) = return_from_call f a b"
| "apply_op f (Op_add_block a) = add_block f a"
| "apply_op f (Op_add_return_site a) = add_return_site f a"
| "apply_op f (Op_add_call_site a t r) = add_call_site f a t r"
| "apply_op f (Op_add_argument_register x) = add_argument_register f x"
| "apply_op f (Op_add_argument_stack_variable x) = add_argument_stack_variable f x"
| "apply_op f (Op_set_name n) = f\<lparr>name := n\<rparr>"
| "apply_op f (Op_set_bp_on_stack v) = f\<lparr>bp_on_stack := v\<rparr>"
| "apply_op f (Op_set_retaddr_on_stack v) = f\<lparr>retaddr_on_stack := v\<rparr>"
| "apply_op f (Op_set_sp_difference v) = f\<lparr>sp_difference := v\<rparr>"

fun apply_ops :: "Function \<Rightarrow> function_op list \<Rightarrow> Function" where
  "apply_ops f [] = f"
| "apply_ops f (x # xs) = apply_ops (apply_op f x) xs"

text \<open>A run of \<^verbatim>\<open>add_call_site\<close> calls, each given as (call site, target, return address).\<close>

fun add_call_sites :: "Function \<Rightarrow> (addr \<times> addr \<times> addr) list \<Rightarrow> Function" where
  "add_call_sites f [] = f"
| "add_call_sites f ((a, t, r) # cs) = add_call_sites (add_call_site f a t r) cs"

text \<open>The four events the manager receives from the control-flow recovery.\<close>

datatype event =
    Ev_call_to addr addr addr addr
  | Ev_return_from addr addr "addr option"
  | Ev_transit_to addr addr addr
  | Ev_return_from_call addr addr addr

fun event_function :: "event \<Rightarrow> addr" where
  "event_function (Ev_call_to f a b r) = f"
| "event_function (Ev_return_from f a t) = f"
| "event_function (Ev_transit_to f a b) = f"
| "event_function (Ev_return_from_call f a b) = f"

fun apply_event :: "'p FunctionManager \<Rightarrow> event \<Rightarrow> 'p FunctionManager" where
  "apply_event m (Ev_call_to f a b r) = fm_call_to m f a b r"
| "apply_event m (Ev_return_from f a t) = fm_return_from m f a t"
| "apply_event m (Ev_transit_to f a b) = fm_transit_to m f a b"
| "apply_event m (Ev_return_from_call f a b) = fm_return_from_call m f a b"

fun apply_events :: "'p FunctionManager \<Rightarrow> event list \<Rightarrow> 'p FunctionManager" where
  "apply_events m [] = m"
| "apply_events m (e # es) = apply_events (apply_event m e) es"

section \<open>Properties of the reverse index\<close>

text \<open>
  Every return address of the reverse index leads to a call site that has an entry, and
  the stronger property that this entry carries the same return address.
\<close>

definition call_site_exists :: "Function \<Rightarrow> bool" where
  "call_site_exists f =
     (\<forall>r c. retn_addr_to_call_site f r = Some c \<longrightarrow> call_sites f c \<noteq> None)"

definition reverse_index_consistent :: "Function \<Rightarrow> bool" where
  "reverse_index_consistent f =
     (\<forall>r c. retn_addr_to_call_site f r = Some c \<longrightarrow> get_call_return f c = Some r)"

text \<open>
  A run of \<^verbatim>\<open>add_call_site\<close> calls keeps return addresses when every call of the run either
  registers a call site that has no entry yet or repeats the return address the call
  site has at that moment.
\<close>

fun keeps_return_addresses :: "Function \<Rightarrow> (addr \<times> addr \<times> addr) list \<Rightarrow> bool" where
  "keeps_return_addresses f [] = True"
| "keeps_return_addresses f ((a, t, r) # cs) =
     ((case get_call_return f a of None \<Rightarrow> True | Some r' \<Rightarrow> r' = r)
      \<and> keeps_return_addresses (add_call_site f a t r) cs)"

text \<open>One call site registered twice, with two return addresses.\<close>

definition reregistered :: Function where
  "reregistered =
     add_call_site (add_call_site (Function_init 0x1000 None) 0x1010 0x2000 0x1020)
       0x1010 0x2000 0x1030"

section \<open>Concrete runs used below\<close>

text \<open>
  The run of three events on a manager that has seen nothing yet:
  \<^verbatim>\<open>transit_to(0x1000, 0x1000, 0x1010)\<close>, \<^verbatim>\<open>call_to(0x1000, 0x1010, 0x2000, 0x1020)\<close>,
  \<^verbatim>\<open>return_from(0x1000, 0x1020)\<close>.
\<close>

definition end_to_end :: "'p \<Rightarrow> 'b \<Rightarrow> 'p FunctionManager" where
  "end_to_end proj binary =
     fm_return_from
       (fm_call_to
          (fm_transit_to (FunctionManager_init proj binary) 0x1000 0x1000 0x1010)
          0x1000 0x1010 0x2000 0x1020)
       0x1000 0x1020 None"

text \<open>A manager that knows the function at \<open>0x2000\<close> and no other.\<close>

definition other_function_seen :: "unit FunctionManager" where
  "other_function_seen = fm_transit_to (FunctionManager_init () ()) 0x2000 0x2000 0x2010"

section \<open>Basic facts\<close>

subsection \<open>What the four events do to the manager\<close>

lemma create_function_if_not_exist_present:
  "function_map (create_function_if_not_exist m a) a \<noteq> None"
  by (auto simp: create_function_if_not_exist_def)

lemma on_function_created:
  "on_function (create_function_if_not_exist m f) f g =
     m\<lparr>function_map := (function_map m)
          (f \<mapsto> g (case function_map m f of Some rec \<Rightarrow> rec
                      | None \<Rightarrow> add_block (Function_init f None) f))\<rparr>"
  by (auto simp: on_function_def create_function_if_not_exist_def split: option.splits)

lemma fm_call_to_eq:
  "fm_call_to m f a b r =
     m\<lparr>function_map := (function_map m)
          (f \<mapsto> add_call_site (case function_map m f of Some rec \<Rightarrow> rec
                      | None \<Rightarrow> add_block (Function_init f None) f) a b r),
       interfunction_graph := add_edge (interfunction_graph m) f b None\<rparr>"
  by (simp add: fm_call_to_def Let_def on_function_created)

lemma fm_return_from_eq:
  "fm_return_from m f a t =
     m\<lparr>function_map := (function_map m)
          (f \<mapsto> add_return_site (case function_map m f of Some rec \<Rightarrow> rec
                      | None \<Rightarrow> add_block (Function_init f None) f) a)\<rparr>"
  by (simp add: fm_return_from_def Let_def on_function_created)

lemma fm_transit_to_eq:
  "fm_transit_to m f a b =
     m\<lparr>function_map := (function_map m)
          (f \<mapsto> transit_to (case function_map m f of Some rec \<Rightarrow> rec
                      | None \<Rightarrow> add_block (Function_init f None) f) a b)\<rparr>"
  by (simp add: fm_transit_to_def Let_def on_function_created)

lemma fm_return_from_call_eq:
  "fm_return_from_call m f a b =
     m\<lparr>function_map := (function_map m)
          (f \<mapsto> return_from_call (case function_map m f of Some rec \<Rightarrow> rec
                      | None \<Rightarrow> add_block (Function_init f None) f) a b)\<rparr>"
  by (simp add: fm_return_from_call_def Let_def on_function_created)

lemma fm_function_present: "function_map m a = Some rec \<Longrightarrow> fm_function m a = (Some rec, m)"
  by (auto simp: fm_function_def)

lemma fm_function_absent: "function_map m a = None \<Longrightarrow> fm_function m a = (None, m)"
  by (auto simp: fm_function_def)

lemma apply_event_other:
  "event_function e \<noteq> a \<Longrightarrow> function_map (apply_event m e) a = function_map m a"
  by (cases e)
     (simp_all add: fm_call_to_eq fm_return_from_eq fm_transit_to_eq fm_return_from_call_eq)

lemma apply_events_other:
  "\<forall>e \<in> set es. event_function e \<noteq> a \<Longrightarrow>
     function_map (apply_events m es) a = function_map m a"
  by (induction m es rule: apply_events.induct) (simp_all add: apply_event_other)

lemma other_function_seen_map:
  "function_map other_function_seen =
     [0x2000 \<mapsto> transit_to (add_block (Function_init 0x2000 None) 0x2000) 0x2000 0x2010]"
  by (simp add: other_function_seen_def fm_transit_to_eq FunctionManager_init_def)

subsection \<open>Graphs and basic blocks\<close>

lemma finsert_pair_twice:
  "finsert v (finsert u (finsert v (finsert u N))) = finsert v (finsert u N)"
  by auto

lemma add_edge_twice: "add_edge (add_edge g u v None) u v None = add_edge g u v None"
  by (simp add: add_edge_def finsert_pair_twice split: option.splits)

lemma entry_in_new_blocks:
  "entry |\<in>| basic_blocks (add_block (Function_init entry None) entry)"
  by (simp add: basic_blocks_def add_block_def add_node_def Function_init_def DiGraph_init_def)

lemma basic_blocks_add_call_site: "basic_blocks (add_call_site f a b r) = basic_blocks f"
  by (simp add: basic_blocks_def add_call_site_def)

lemma basic_blocks_add_return_site: "basic_blocks (add_return_site f a) = basic_blocks f"
  by (simp add: basic_blocks_def add_return_site_def)

lemma basic_blocks_transit_to:
  "basic_blocks (transit_to f a b) = finsert b (finsert a (basic_blocks f))"
  by (simp add: basic_blocks_def transit_to_def add_edge_def)

lemma basic_blocks_return_from_call:
  "basic_blocks (return_from_call f a b) = finsert b (finsert a (basic_blocks f))"
  by (simp add: basic_blocks_def return_from_call_def add_edge_def)

subsection \<open>Call sites and the reverse index\<close>

lemma add_call_site_twice:
  "add_call_site (add_call_site f a b r) a b r = add_call_site f a b r"
  by (simp add: add_call_site_def)

lemma add_call_site_exists: "call_site_exists f \<Longrightarrow> call_site_exists (add_call_site f a t r)"
  by (auto simp: call_site_exists_def add_call_site_def)

lemma add_call_site_consistent:
  assumes inv: "reverse_index_consistent f"
    and same: "case get_call_return f a of None \<Rightarrow> True | Some r' \<Rightarrow> r' = r"
  shows "reverse_index_consistent (add_call_site f a t r)"
  unfolding reverse_index_consistent_def
proof (intro allI impI)
  fix r0 c
  assume key: "retn_addr_to_call_site (add_call_site f a t r) r0 = Some c"
  show "get_call_return (add_call_site f a t r) c = Some r0"
  proof (cases "r0 = r")
    case True
    with key show ?thesis
      by (simp add: add_call_site_def get_call_return_def)
  next
    case False
    with key have old: "retn_addr_to_call_site f r0 = Some c"
      by (simp add: add_call_site_def)
    with inv have ret: "get_call_return f c = Some r0"
      by (simp add: reverse_index_consistent_def)
    have "c \<noteq> a"
    proof
      assume "c = a"
      with ret same have "r0 = r" by simp
      with False show False by simp
    qed
    with ret show ?thesis
      by (simp add: add_call_site_def get_call_return_def)
  qed
qed

lemma add_call_sites_exists: "call_site_exists f \<Longrightarrow> call_site_exists (add_call_sites f cs)"
  by (induction f cs rule: add_call_sites.induct) (auto simp: add_call_site_exists)

lemma add_call_sites_consistent:
  "reverse_index_consistent f \<Longrightarrow> keeps_return_addresses f cs \<Longrightarrow>
     reverse_index_consistent (add_call_sites f cs)"
  by (induction f cs rule: add_call_sites.induct) (auto simp: add_call_site_consistent)

lemma Function_init_consistent: "reverse_index_consistent (Function_init entry n)"
  by (simp add: reverse_index_consistent_def Function_init_def)

lemma Function_init_exists: "call_site_exists (Function_init entry n)"
  by (simp add: call_site_exists_def Function_init_def)

subsection \<open>Return sites\<close>

lemma has_return_iff: "has_return f \<longleftrightarrow> ret_sites f \<noteq> {||}"
proof -
  have "fcard (ret_sites f) = 0 \<longleftrightarrow> ret_sites f = {||}"
    by (rule fcard_0_eq)
  moreover have "0 < fcard (ret_sites f) \<longleftrightarrow> fcard (ret_sites f) \<noteq> 0"
    by arith
  ultimately show ?thesis
    unfolding has_return_def by blast
qed

lemma has_return_add_return_site: "has_return (add_return_site f x)"
  by (simp add: has_return_iff add_return_site_def)

lemma ret_sites_apply_op: "ret_sites f |\<subseteq>| ret_sites (apply_op f x)"
  by (cases x)
     (auto simp: transit_to_def return_from_call_def add_block_def add_return_site_def
        add_call_site_def add_argument_register_def add_argument_stack_variable_def)

lemma has_return_apply_op: "has_return f \<Longrightarrow> has_return (apply_op f x)"
  using ret_sites_apply_op [of f x] by (auto simp: has_return_iff)

lemma has_return_apply_ops: "has_return f \<Longrightarrow> has_return (apply_ops f ops)"
  by (induction f ops rule: apply_ops.induct) (auto simp: has_return_apply_op)

subsection \<open>The run of three events\<close>

lemma end_to_end_function:
  "function_map (end_to_end proj binary) 0x1000 =
     Some (add_return_site
       (add_call_site
         (transit_to (add_block (Function_init 0x1000 None) 0x1000) 0x1000 0x1010)
         0x1010 0x2000 0x1020) 0x1020)"
  by (simp add: end_to_end_def fm_return_from_eq fm_call_to_eq fm_transit_to_eq
      FunctionManager_init_def)

lemma end_to_end_graph:
  "interfunction_graph (end_to_end proj binary) = add_edge DiGraph_init 0x1000 0x2000 None"
  by (simp add: end_to_end_def fm_return_from_eq fm_call_to_eq fm_transit_to_eq
      FunctionManager_init_def)

section \<open>The claims\<close>

subsection \<open>C1: the reverse index\<close>

text \<open>
  Claim C1 says that after any run of \<^verbatim>\<open>add_call_site\<close> calls every return address \<open>r\<close> of the
  reverse index leads to a call site whose entry carries \<open>r\<close>, also when one call site is
  registered a second time with another return address. The method overwrites the entry
  of the call site and adds the new return address to the reverse index; it removes
  nothing. So the old return address stays in the reverse index and leads to the call
  site, whose entry now carries the new one: the record \<open>reregistered\<close> shows it.
\<close>

theorem reverse_index_stale_counterexample:
  "retn_addr_to_call_site reregistered 0x1020 = Some 0x1010
   \<and> call_sites reregistered 0x1010 = Some (0x2000, 0x1030)
   \<and> get_call_return reregistered 0x1010 \<noteq> Some 0x1020
   \<and> \<not> reverse_index_consistent reregistered"
  by (auto simp: reregistered_def reverse_index_consistent_def add_call_site_def
      get_call_return_def Function_init_def)

text \<open>
  Claim C1, amended. A new function is consistent. Any run of \<^verbatim>\<open>add_call_site\<close> calls keeps
  the weaker property that every return address of the reverse index leads to a call site
  with an entry. It keeps consistency when each call of the run registers a call site
  without an entry or repeats the return address the call site has at that moment.
\<close>

theorem reverse_index_add_call_sites:
  "reverse_index_consistent (Function_init entry n)
   \<and> (call_site_exists f \<longrightarrow> call_site_exists (add_call_sites f cs))
   \<and> (reverse_index_consistent f \<and> keeps_return_addresses f cs
        \<longrightarrow> reverse_index_consistent (add_call_sites f cs))"
  by (simp add: Function_init_consistent add_call_sites_exists add_call_sites_consistent)

text \<open>
  The amended claim at a new function and a run of three calls, the second of which
  registers the first call site again, with another target and the same return address.
\<close>

theorem reverse_index_add_call_sites_witness:
  "call_site_exists (Function_init 0x1000 None)
   \<and> reverse_index_consistent (Function_init 0x1000 None)
   \<and> keeps_return_addresses (Function_init 0x1000 None)
        [(0x1010, 0x2000, 0x1020), (0x1010, 0x3000, 0x1020), (0x1040, 0x2000, 0x1050)]
   \<and> call_site_exists (add_call_sites (Function_init 0x1000 None)
        [(0x1010, 0x2000, 0x1020), (0x1010, 0x3000, 0x1020), (0x1040, 0x2000, 0x1050)])
   \<and> reverse_index_consistent (add_call_sites (Function_init 0x1000 None)
        [(0x1010, 0x2000, 0x1020), (0x1010, 0x3000, 0x1020), (0x1040, 0x2000, 0x1050)])"
proof -
  have a: "call_site_exists (Function_init 0x1000 None)"
    by (simp add: call_site_exists_def Function_init_def)
  have b: "reverse_index_consistent (Function_init 0x1000 None)"
    by (simp add: reverse_index_consistent_def Function_init_def)
  have c: "keeps_return_addresses (Function_init 0x1000 None)
        [(0x1010, 0x2000, 0x1020), (0x1010, 0x3000, 0x1020), (0x1040, 0x2000, 0x1050)]"
    by (simp add: get_call_return_def add_call_site_def Function_init_def)
  from a b c
    reverse_index_add_call_sites [where f = "Function_init 0x1000 None"
      and cs = "[(0x1010, 0x2000, 0x1020), (0x1010, 0x3000, 0x1020), (0x1040, 0x2000, 0x1050)]"]
  show ?thesis by blast
qed

subsection \<open>C2: registering a call twice\<close>

text \<open>
  Claim C2: for every manager and all addresses, \<^verbatim>\<open>call_to(f, a, b, r)\<close> done twice gives the
  same manager as done once. The function at \<open>f\<close> then has one entry for the call site
  \<open>a\<close> (the call sites are the keys of a dictionary), with target \<open>b\<close> and return address
  \<open>r\<close>, and the second call leaves the call graph as the first one left it.
\<close>

theorem fm_call_to_idempotent:
  "fm_call_to (fm_call_to m f a b r) f a b r = fm_call_to m f a b r
   \<and> (case fst (fm_function (fm_call_to (fm_call_to m f a b r) f a b r) f) of
        None \<Rightarrow> False
      | Some rec \<Rightarrow> a \<in> get_call_sites rec \<and> call_sites rec a = Some (b, r)
           \<and> get_call_target rec a = Some b \<and> get_call_return rec a = Some r)
   \<and> interfunction_graph (fm_call_to (fm_call_to m f a b r) f a b r)
       = interfunction_graph (fm_call_to m f a b r)"
  by (simp add: fm_call_to_eq add_edge_twice add_call_site_twice fm_function_def
      get_call_sites_def get_call_target_def get_call_return_def)
     (simp add: add_call_site_def)

subsection \<open>C3: functions are created on first mention\<close>

text \<open>
  Claim C3: when the manager has no function at \<open>entry\<close>, each of the four events
  \<^verbatim>\<open>call_to\<close>, \<^verbatim>\<open>return_from\<close>, \<^verbatim>\<open>transit_to\<close> and \<^verbatim>\<open>return_from_call\<close> for \<open>entry\<close> creates one:
  \<^verbatim>\<open>function(entry)\<close> then returns the new function, on which the event has been recorded,
  and not \<^verbatim>\<open>None\<close>; and \<open>entry\<close> is one of the basic blocks of the new function.
\<close>

theorem auto_vivification:
  assumes "function_map m entry = None"
  shows "fst (fm_function (fm_call_to m entry a b r) entry)
           = Some (add_call_site (add_block (Function_init entry None) entry) a b r)
       \<and> fst (fm_function (fm_return_from m entry a t) entry)
           = Some (add_return_site (add_block (Function_init entry None) entry) a)
       \<and> fst (fm_function (fm_transit_to m entry a b) entry)
           = Some (transit_to (add_block (Function_init entry None) entry) a b)
       \<and> fst (fm_function (fm_return_from_call m entry a b) entry)
           = Some (return_from_call (add_block (Function_init entry None) entry) a b)
       \<and> entry |\<in>| basic_blocks (add_call_site (add_block (Function_init entry None) entry) a b r)
       \<and> entry |\<in>| basic_blocks (add_return_site (add_block (Function_init entry None) entry) a)
       \<and> entry |\<in>| basic_blocks (transit_to (add_block (Function_init entry None) entry) a b)
       \<and> entry |\<in>| basic_blocks (return_from_call (add_block (Function_init entry None) entry) a b)"
  using assms
  by (simp add: fm_call_to_eq fm_return_from_eq fm_transit_to_eq fm_return_from_call_eq
      fm_function_present basic_blocks_add_call_site basic_blocks_add_return_site
      basic_blocks_transit_to basic_blocks_return_from_call entry_in_new_blocks)

text \<open>The manager that knows the function at \<open>0x2000\<close> only, and events for \<open>0x1000\<close>.\<close>

theorem auto_vivification_witness:
  "function_map other_function_seen 0x1000 = None
   \<and> fst (fm_function (fm_call_to other_function_seen 0x1000 0x1010 0x2000 0x1020) 0x1000) \<noteq> None
   \<and> fst (fm_function (fm_return_from other_function_seen 0x1000 0x1010 None) 0x1000) \<noteq> None
   \<and> fst (fm_function (fm_transit_to other_function_seen 0x1000 0x1010 0x2000) 0x1000) \<noteq> None
   \<and> fst (fm_function (fm_return_from_call other_function_seen 0x1000 0x1010 0x2000) 0x1000) \<noteq> None
   \<and> 0x1000 |\<in>| basic_blocks
        (add_call_site (add_block (Function_init 0x1000 None) 0x1000) 0x1010 0x2000 0x1020)"
proof -
  have absent: "function_map other_function_seen 0x1000 = None"
    by (simp add: other_function_seen_map)
  from auto_vivification [OF absent, of "0x1010" "0x2000" "0x1020" None] absent
  show ?thesis by simp
qed

subsection \<open>C4: a run of three events\<close>

text \<open>
  Claim C4: after \<^verbatim>\<open>transit_to(0x1000, 0x1000, 0x1010)\<close>, \<^verbatim>\<open>call_to(0x1000, 0x1010, 0x2000, 0x1020)\<close>
  and \<^verbatim>\<open>return_from(0x1000, 0x1020)\<close> on a new manager, the function at \<open>0x1000\<close> has the basic
  blocks \<open>0x1000\<close> and \<open>0x1010\<close>, the single call site \<open>0x1010\<close> with target \<open>0x2000\<close> and
  return address \<open>0x1020\<close>, the return sites \<open>{0x1020}\<close>, and \<^verbatim>\<open>has_return\<close> is true; the
  call graph has the edge from \<open>0x1000\<close> to \<open>0x2000\<close>.
\<close>

theorem end_to_end_scenario:
  "(case fst (fm_function (end_to_end proj binary) 0x1000) of
      None \<Rightarrow> False
    | Some rec \<Rightarrow>
        0x1000 |\<in>| basic_blocks rec \<and> 0x1010 |\<in>| basic_blocks rec
        \<and> get_call_sites rec = {0x1010}
        \<and> get_call_target rec 0x1010 = Some 0x2000
        \<and> get_call_return rec 0x1010 = Some 0x1020
        \<and> ret_sites rec = {|0x1020|}
        \<and> has_return rec)
   \<and> has_edge (interfunction_graph (end_to_end proj binary)) 0x1000 0x2000"
proof -
  let ?rec = "add_return_site
       (add_call_site
         (transit_to (add_block (Function_init 0x1000 None) 0x1000) 0x1000 0x1010)
         0x1010 0x2000 0x1020) 0x1020"
  have look: "fst (fm_function (end_to_end proj binary) 0x1000) = Some ?rec"
    by (simp add: fm_function_present [OF end_to_end_function])
  have blocks: "basic_blocks ?rec = {|0x1000, 0x1010|}"
    by (simp add: basic_blocks_add_return_site basic_blocks_add_call_site
        basic_blocks_transit_to)
       (auto simp: basic_blocks_def add_block_def add_node_def Function_init_def DiGraph_init_def)
  have sites: "call_sites ?rec = [0x1010 \<mapsto> (0x2000, 0x1020)]"
    by (simp add: add_return_site_def add_call_site_def transit_to_def add_block_def
        Function_init_def)
  have rets: "ret_sites ?rec = {|0x1020|}"
    by (simp add: add_return_site_def add_call_site_def transit_to_def add_block_def
        Function_init_def)
  have edge: "has_edge (interfunction_graph (end_to_end proj binary)) 0x1000 0x2000"
    by (simp add: end_to_end_graph has_edge_def add_edge_def)
  show ?thesis
    by (simp add: look blocks rets edge has_return_iff get_call_sites_def get_call_target_def
        get_call_return_def sites)
qed

subsection \<open>C5: argument registers and stack variables\<close>

text \<open>
  Claim C5: on a new function, \<^verbatim>\<open>add_argument_register\<close> with 4, 4 and 8 leaves the argument
  registers \<open>[4, 8]\<close>, of length 2. The same holds for \<^verbatim>\<open>add_argument_stack_variable\<close>, and
  on every function both methods append the offset when the sequence does not have it
  and leave the sequence alone when it does.
\<close>

theorem argument_dedup_order:
  "argument_registers
     (add_argument_register (add_argument_register (add_argument_register
        (Function_init a n) 4) 4) 8) = [4, 8]
   \<and> length (argument_registers
     (add_argument_register (add_argument_register (add_argument_register
        (Function_init a n) 4) 4) 8)) = 2
   \<and> argument_stack_variables
     (add_argument_stack_variable (add_argument_stack_variable (add_argument_stack_variable
        (Function_init a n) 4) 4) 8) = [4, 8]
   \<and> argument_registers (add_argument_register f x) =
        (if x \<in> set (argument_registers f) then argument_registers f
         else argument_registers f @ [x])
   \<and> argument_stack_variables (add_argument_stack_variable f x) =
        (if x \<in> set (argument_stack_variables f) then argument_stack_variables f
         else argument_stack_variables f @ [x])"
  by (simp add: add_argument_register_def add_argument_stack_variable_def Function_init_def)

subsection \<open>C6: has_return\<close>

text \<open>
  Claim C6: \<^verbatim>\<open>has_return\<close> holds exactly when the set of return sites is not empty. It is
  false on a new function, true after one \<^verbatim>\<open>add_return_site\<close>, and stays true under every
  further run of operations on the function.
\<close>

theorem has_return_lifecycle:
  "(has_return f \<longleftrightarrow> ret_sites f \<noteq> {||})
   \<and> \<not> has_return (Function_init a n)
   \<and> has_return (add_return_site f x)
   \<and> has_return (apply_ops (add_return_site f x) ops)"
  by (simp add: has_return_apply_ops has_return_add_return_site)
     (simp add: has_return_iff Function_init_def)

subsection \<open>C7: looking up an unknown address\<close>

text \<open>
  Claim C7: when the manager has no function at \<open>a\<close>, \<^verbatim>\<open>function(a)\<close> returns \<^verbatim>\<open>None\<close> and the
  manager is as before; a second lookup returns \<^verbatim>\<open>None\<close> again, and so does a lookup after
  any run of events for other functions.
\<close>

theorem fm_function_unknown_address:
  assumes absent: "function_map m a = None"
    and others: "\<forall>e \<in> set es. event_function e \<noteq> a"
  shows "fm_function m a = (None, m)
       \<and> fm_function (snd (fm_function m a)) a = (None, m)
       \<and> fm_function (apply_events m es) a = (None, apply_events m es)"
proof -
  have first: "fm_function m a = (None, m)"
    using absent by (rule fm_function_absent)
  have "function_map (apply_events m es) a = None"
    using absent others by (simp add: apply_events_other)
  then have later: "fm_function (apply_events m es) a = (None, apply_events m es)"
    by (rule fm_function_absent)
  from first later show ?thesis by simp
qed

text \<open>
  The manager that knows the function at \<open>0x2000\<close> only: a call from that function to
  \<open>0x1000\<close> and a return from a third function do not create a function at \<open>0x1000\<close>.
\<close>

theorem fm_function_unknown_address_witness:
  "function_map other_function_seen 0x1000 = None
   \<and> event_function (Ev_call_to 0x2000 0x2010 0x1000 0x2020) \<noteq> 0x1000
   \<and> event_function (Ev_return_from 0x3000 0x3010 None) \<noteq> 0x1000
   \<and> fm_function other_function_seen 0x1000 = (None, other_function_seen)
   \<and> fst (fm_function (apply_events other_function_seen
         [Ev_call_to 0x2000 0x2010 0x1000 0x2020, Ev_return_from 0x3000 0x3010 None]) 0x1000) = None"
proof -
  have absent: "function_map other_function_seen 0x1000 = None"
    by (simp add: other_function_seen_map)
  have others:
    "\<forall>e \<in> set [Ev_call_to 0x2000 0x2010 0x1000 0x2020, Ev_return_from 0x3000 0x3010 None].
         event_function e \<noteq> 0x1000"
    by simp
  from fm_function_unknown_address [OF absent others] absent others show ?thesis
    by simp
qed

subsection \<open>C8: one edge for each pair of functions\<close>

text \<open>
  Claim C8: on every manager, \<^verbatim>\<open>call_to(0x1000, 0x1010, 0x2000, 0x1020)\<close> puts the edge from
  \<open>0x1000\<close> to \<open>0x2000\<close> into the call graph. One more call from \<open>0x1000\<close> to \<open>0x2000\<close>, at
  any call site \<open>a\<close> with any return address \<open>r\<close>, leaves the call graph as it was, with
  one edge from \<open>0x1000\<close> to \<open>0x2000\<close>: the graph keeps one attribute dictionary for each
  ordered pair of nodes, so the pair occurs once among its edges.
\<close>

theorem call_graph_simple:
  "has_edge (interfunction_graph (fm_call_to m 0x1000 0x1010 0x2000 0x1020)) 0x1000 0x2000
   \<and> interfunction_graph (fm_call_to (fm_call_to m 0x1000 0x1010 0x2000 0x1020) 0x1000 a 0x2000 r)
       = interfunction_graph (fm_call_to m 0x1000 0x1010 0x2000 0x1020)
   \<and> number_of_edges
        (interfunction_graph (fm_call_to (fm_call_to m 0x1000 0x1010 0x2000 0x1020) 0x1000 a 0x2000 r))
        0x1000 0x2000 = 1
   \<and> card {e \<in> dom (edges
        (interfunction_graph (fm_call_to (fm_call_to m 0x1000 0x1010 0x2000 0x1020) 0x1000 a 0x2000 r))).
        e = (0x1000, 0x2000)} = 1"
proof -
  let ?g1 = "interfunction_graph (fm_call_to m 0x1000 0x1010 0x2000 0x1020)"
  let ?g2 = "interfunction_graph
      (fm_call_to (fm_call_to m 0x1000 0x1010 0x2000 0x1020) 0x1000 a 0x2000 r)"
  have same: "?g2 = ?g1"
    by (simp add: fm_call_to_eq add_edge_twice)
  have edge: "edges ?g1 (0x1000, 0x2000) \<noteq> None"
    by (simp add: fm_call_to_eq add_edge_def)
  then have "{e \<in> dom (edges ?g1). e = (0x1000, 0x2000)} = {(0x1000, 0x2000)}"
    by auto
  then have one: "card {e \<in> dom (edges ?g1). e = (0x1000, 0x2000)} = 1"
    by simp
  from edge have "has_edge ?g1 0x1000 0x2000" and "number_of_edges ?g1 0x1000 0x2000 = 1"
    by (simp_all add: has_edge_def number_of_edges_def)
  with same one show ?thesis
    by simp
qed

subsection \<open>C9: the unused parameter of return_from\<close>

text \<open>
  Claim C9: the third parameter \<^verbatim>\<open>to_addr\<close> of \<^verbatim>\<open>return_from\<close> has no effect: every two values
  of it give the same manager, which is also the manager obtained with the parameter left
  out (its default is \<^verbatim>\<open>None\<close>).
\<close>

theorem fm_return_from_target_unused:
  "fm_return_from m f a t = fm_return_from m f a t'
   \<and> fm_return_from m f a t = fm_return_from m f a None"
  by (simp add: fm_return_from_def)

subsection \<open>C10: call_to leaves the transition graph alone\<close>

text \<open>
  Claim C10: when the manager has a function at \<open>f\<close>, \<^verbatim>\<open>call_to(f, a, b, r)\<close> changes of that
  function the call sites and the reverse index only, so its transition graph and its
  basic blocks are the same as before; every other function and the project are
  untouched, and the call graph gets the edge from \<open>f\<close> to \<open>b\<close>.
\<close>

theorem fm_call_to_frame:
  assumes "function_map m f = Some rec"
  shows "function_map (fm_call_to m f a b r) =
           (function_map m)(f \<mapsto>
              rec\<lparr>call_sites := (call_sites rec)(a \<mapsto> (b, r)),
                  retn_addr_to_call_site := (retn_addr_to_call_site rec)(r \<mapsto> a)\<rparr>)
       \<and> map_option transition_graph (fst (fm_function (fm_call_to m f a b r) f))
           = Some (transition_graph rec)
       \<and> map_option basic_blocks (fst (fm_function (fm_call_to m f a b r) f))
           = Some (basic_blocks rec)
       \<and> interfunction_graph (fm_call_to m f a b r) = add_edge (interfunction_graph m) f b None
       \<and> project (fm_call_to m f a b r) = project m"
  using assms
  by (simp add: fm_call_to_eq fm_function_def basic_blocks_add_call_site)
     (simp add: add_call_site_def)

text \<open>
  The manager that knows the function at \<open>0x2000\<close>, with the blocks \<open>0x2000\<close> and \<open>0x2010\<close>:
  a call from \<open>0x2010\<close> to \<open>0x3000\<close> returning to \<open>0x2020\<close> adds no block.
\<close>

theorem fm_call_to_frame_witness:
  "function_map other_function_seen 0x2000
     = Some (transit_to (add_block (Function_init 0x2000 None) 0x2000) 0x2000 0x2010)
   \<and> map_option basic_blocks
        (fst (fm_function (fm_call_to other_function_seen 0x2000 0x2010 0x3000 0x2020) 0x2000))
       = Some {|0x2000, 0x2010|}
   \<and> map_option transition_graph
        (fst (fm_function (fm_call_to other_function_seen 0x2000 0x2010 0x3000 0x2020) 0x2000))
       = Some (transition_graph
           (transit_to (add_block (Function_init 0x2000 None) 0x2000) 0x2000 0x2010))"
proof -
  have present: "function_map other_function_seen 0x2000
     = Some (transit_to (add_block (Function_init 0x2000 None) 0x2000) 0x2000 0x2010)"
    by (simp add: other_function_seen_map)
  have blocks: "basic_blocks (transit_to (add_block (Function_init 0x2000 None) 0x2000) 0x2000 0x2010)
     = {|0x2000, 0x2010|}"
    by (auto simp: basic_blocks_def transit_to_def add_edge_def add_block_def add_node_def
        Function_init_def DiGraph_init_def)
  from fm_call_to_frame [OF present, of "0x2010" "0x3000" "0x2020"] present blocks
  show ?thesis by simp
qed

end
